theory Spec2Isabelle
  imports Complex_Main
begin

section \<open>JavaScript numbers\<close>

text \<open>
  A JavaScript number is a double. The model keeps the three special values apart from
  the finite ones and computes on the finite ones in exact real arithmetic: rounding,
  overflow to an infinity, underflow to zero and the sign of zero are not modelled.
\<close>

datatype jsnum = Num real | PosInf | NegInf | NaN

text \<open>The relational operators \<^verbatim>\<open>a > b\<close> and \<^verbatim>\<open>a <= b\<close>: false as soon as one side is NaN.\<close>

fun js_gt :: "jsnum \<Rightarrow> jsnum \<Rightarrow> bool" where
  "js_gt NaN b = False"
| "js_gt a NaN = False"
| "js_gt (Num a) (Num b) = (b < a)"
| "js_gt (Num a) PosInf = False"
| "js_gt (Num a) NegInf = True"
| "js_gt PosInf PosInf = False"
| "js_gt PosInf b = True"
| "js_gt NegInf b = False"

fun js_le :: "jsnum \<Rightarrow> jsnum \<Rightarrow> bool" where
  "js_le NaN b = False"
| "js_le a NaN = False"
| "js_le (Num a) (Num b) = (a \<le> b)"
| "js_le (Num a) PosInf = True"
| "js_le (Num a) NegInf = False"
| "js_le NegInf b = True"
| "js_le PosInf PosInf = True"
| "js_le PosInf b = False"

text \<open>\<^verbatim>\<open>Math.max(a, b)\<close>: NaN when an argument is NaN.\<close>

fun Math_max :: "jsnum \<Rightarrow> jsnum \<Rightarrow> jsnum" where
  "Math_max NaN b = NaN"
| "Math_max a NaN = NaN"
| "Math_max a b = (if js_gt a b then a else b)"

fun js_neg :: "jsnum \<Rightarrow> jsnum" where
  "js_neg (Num a) = Num (- a)"
| "js_neg PosInf = NegInf"
| "js_neg NegInf = PosInf"
| "js_neg NaN = NaN"

fun js_add :: "jsnum \<Rightarrow> jsnum \<Rightarrow> jsnum" where
  "js_add NaN b = NaN"
| "js_add a NaN = NaN"
| "js_add (Num a) (Num b) = Num (a + b)"
| "js_add (Num a) b = b"
| "js_add PosInf NegInf = NaN"
| "js_add NegInf PosInf = NaN"
| "js_add a b = a"

definition js_sub :: "jsnum \<Rightarrow> jsnum \<Rightarrow> jsnum" where
  "js_sub a b = js_add a (js_neg b)"

fun js_mul :: "jsnum \<Rightarrow> jsnum \<Rightarrow> jsnum" where
  "js_mul NaN b = NaN"
| "js_mul a NaN = NaN"
| "js_mul (Num a) (Num b) = Num (a * b)"
| "js_mul (Num a) PosInf = (if a = 0 then NaN else if 0 < a then PosInf else NegInf)"
| "js_mul (Num a) NegInf = (if a = 0 then NaN else if 0 < a then NegInf else PosInf)"
| "js_mul PosInf (Num b) = (if b = 0 then NaN else if 0 < b then PosInf else NegInf)"
| "js_mul NegInf (Num b) = (if b = 0 then NaN else if 0 < b then NegInf else PosInf)"
| "js_mul PosInf PosInf = PosInf"
| "js_mul PosInf NegInf = NegInf"
| "js_mul NegInf PosInf = NegInf"
| "js_mul NegInf NegInf = PosInf"

fun js_div :: "jsnum \<Rightarrow> jsnum \<Rightarrow> jsnum" where
  "js_div NaN b = NaN"
| "js_div a NaN = NaN"
| "js_div (Num a) (Num b) =
     (if b \<noteq> 0 then Num (a / b)
      else if a = 0 then NaN else if 0 < a then PosInf else NegInf)"
| "js_div (Num a) b = Num 0"
| "js_div PosInf (Num b) = (if 0 \<le> b then PosInf else NegInf)"
| "js_div NegInf (Num b) = (if 0 \<le> b then NegInf else PosInf)"
| "js_div a b = NaN"

text \<open>\<^verbatim>\<open>Math.log\<close>: NaN below zero, minus infinity at zero.\<close>

fun Math_log :: "jsnum \<Rightarrow> jsnum" where
  "Math_log (Num x) = (if x < 0 then NaN else if x = 0 then NegInf else Num (ln x))"
| "Math_log PosInf = PosInf"
| "Math_log NegInf = NaN"
| "Math_log NaN = NaN"

text \<open>
  \<^verbatim>\<open>Math.pow(x, y)\<close>, in the order of the language standard: a NaN exponent, a
  zero exponent, a NaN base, an infinite base, a zero base, an infinite exponent, a
  negative base with a fractional exponent, and the power itself.
\<close>

definition odd_integer :: "real \<Rightarrow> bool" where
  "odd_integer y = (y \<in> \<int> \<and> odd \<lfloor>y\<rfloor>)"

fun Math_pow :: "jsnum \<Rightarrow> jsnum \<Rightarrow> jsnum" where
  "Math_pow x NaN = NaN"
| "Math_pow NaN (Num y) = (if y = 0 then Num 1 else NaN)"
| "Math_pow NaN y = NaN"
| "Math_pow PosInf (Num y) = (if y = 0 then Num 1 else if 0 < y then PosInf else Num 0)"
| "Math_pow PosInf PosInf = PosInf"
| "Math_pow PosInf NegInf = Num 0"
| "Math_pow NegInf (Num y) =
     (if y = 0 then Num 1
      else if 0 < y then (if odd_integer y then NegInf else PosInf)
      else Num 0)"
| "Math_pow NegInf PosInf = PosInf"
| "Math_pow NegInf NegInf = Num 0"
| "Math_pow (Num x) PosInf =
     (if x = 0 then Num 0
      else if 1 < \<bar>x\<bar> then PosInf else if \<bar>x\<bar> = 1 then NaN else Num 0)"
| "Math_pow (Num x) NegInf =
     (if x = 0 then PosInf
      else if 1 < \<bar>x\<bar> then Num 0 else if \<bar>x\<bar> = 1 then NaN else PosInf)"
| "Math_pow (Num x) (Num y) =
     (if y = 0 then Num 1
      else if x = 0 then (if 0 < y then Num 0 else PosInf)
      else if 0 < x then Num (x powr y)
      else if y \<in> \<int> then Num (x powi \<lfloor>y\<rfloor>)
      else NaN)"

section \<open>Geometry, envelope and precision model\<close>

record envelope =
  getHeight :: jsnum
  getWidth :: jsnum

datatype precision_type = FIXED | FLOATING | FLOATING_SINGLE

record precision_model =
  getType :: precision_type
  getScale :: jsnum

record geometry =
  getEnvelopeInternal :: envelope
  getPrecisionModel :: precision_model

definition precisionScaleFactor :: "'a geometry_scheme \<Rightarrow> jsnum \<Rightarrow> jsnum \<Rightarrow> jsnum" where
  "precisionScaleFactor g distance maxPrecisionDigits =
     (let env = getEnvelopeInternal g;
          envSize = Math_max (getHeight env) (getWidth env);
          expandByDistance = (if js_gt distance (Num 0) then distance else Num 0);
          bufEnvSize = js_add envSize (js_mul (Num 2) expandByDistance);
          bufEnvLog10 = js_add (js_div (Math_log bufEnvSize) (Math_log (Num 10))) (Num 1);
          minUnitLog10 = js_sub bufEnvLog10 maxPrecisionDigits;
          scaleFactor = Math_pow (Num 10) (js_neg minUnitLog10)
      in scaleFactor)"

section \<open>Values, errors and the collaborators\<close>

text \<open>
  The values that reach the file: \<^verbatim>\<open>undefined\<close>, \<^verbatim>\<open>null\<close>, numbers, geometries,
  BufferParameters objects and error objects. None of them is a function.
\<close>

record buffer_parameters =
  quadrantSegments :: jsnum
  endCapStyle :: jsnum

datatype error =
  TopologyException string
| IllegalArgumentException string
| OtherError string
| ReferenceError string
| TypeError string

datatype jsval =
  Undefined
| Null
| Number jsnum
| GeometryObject geometry
| BufferParametersObject buffer_parameters
| ErrorObject error

fun ToNumber :: "jsval \<Rightarrow> jsnum" where
  "ToNumber Undefined = NaN"
| "ToNumber Null = Num 0"
| "ToNumber (Number n) = n"
| "ToNumber v = NaN"

fun truthy :: "jsval \<Rightarrow> bool" where
  "truthy Undefined = False"
| "truthy Null = False"
| "truthy (Number n) = (n \<noteq> NaN \<and> n \<noteq> Num 0)"
| "truthy v = True"

text \<open>\<^verbatim>\<open>v != null\<close> is false for \<^verbatim>\<open>null\<close> and for \<^verbatim>\<open>undefined\<close>.\<close>

definition nullish :: "jsval \<Rightarrow> bool" where
  "nullish v = (v = Null \<or> v = Undefined)"

definition js_ge :: "jsnum \<Rightarrow> jsnum \<Rightarrow> bool" where
  "js_ge a b = js_le b a"

text \<open>How a call ends: normally with a value, or by throwing a value.\<close>

datatype 'r completion = Normal 'r | Throw jsval

text \<open>
  Modelled from the spec: the constructor \<^verbatim>\<open>jsts.geom.PrecisionModel(scale)\<close> is not in
  the file; the spec has it build the fixed grid of that scale.
\<close>

definition PrecisionModel :: "jsnum \<Rightarrow> precision_model" where
  "PrecisionModel scale = \<lparr>getType = FIXED, getScale = scale\<rparr>"

datatype snap_rounder = MCIndexSnapRounder precision_model

datatype noder = ScaledNoder snap_rounder jsnum

text \<open>
  One call \<^verbatim>\<open>bufBuilder.buffer(argGeom, distance)\<close>, with what the builder was given
  before it: the parameters of its constructor, the working precision model and the
  noder (\<open>None\<close> when the setter was not called).
\<close>

record buffer_call =
  bc_bufParams :: jsval
  bc_workingPrecisionModel :: "precision_model option"
  bc_noder :: "noder option"
  bc_geom :: jsval
  bc_distance :: jsval

text \<open>The builder is not part of the file: it returns a value or throws an error.\<close>

datatype outcome = Returns jsval | Throws error

type_synonym builder = "buffer_call \<Rightarrow> outcome"

section \<open>The global scope\<close>

text \<open>
  Lines 219 to 277 name \<^verbatim>\<open>argGeom\<close>, \<^verbatim>\<open>distance\<close>, \<^verbatim>\<open>bufParams\<close>,
  \<^verbatim>\<open>resultGeometry\<close>, \<^verbatim>\<open>saveException\<close>, \<^verbatim>\<open>MAX_PRECISION_DIGITS\<close>,
  \<^verbatim>\<open>precisionScaleFactor\<close>, \<^verbatim>\<open>bufferFixedPrecision\<close>, \<^verbatim>\<open>bufferReducedPrecision\<close> and
  \<^verbatim>\<open>BufferOp\<close> without \<^verbatim>\<open>this\<close> or a namespace. In JavaScript such a name is looked up
  in the global scope, not in the object: reading a name that is not bound there throws
  a ReferenceError, and assigning to one binds it (the file has no strict mode
  directive). The file itself binds no global name: everything it defines is a property
  of \<^verbatim>\<open>jsts.operation.buffer.BufferOp\<close> or of its prototype. The namespace
  \<^verbatim>\<open>jsts\<close> and the classes named through it (\<^verbatim>\<open>jsts.operation.buffer.BufferBuilder\<close>,
  \<^verbatim>\<open>jsts.geom.PrecisionModel\<close>) are taken to exist: the file cannot be loaded without
  them.

  The state of a run is therefore the global scope, a map from names to values, and the
  log of the calls made to the builder, oldest first (the code has no such log). The
  file also names four classes of other files without their namespace
  (\<^verbatim>\<open>BufferParameters\<close>, \<^verbatim>\<open>PrecisionModel\<close>, \<^verbatim>\<open>ScaledNoder\<close>,
  \<^verbatim>\<open>MCIndexSnapRounder\<close>); \<open>collaborators_global\<close> says whether the global scope binds
  these four names to those classes, and when it does not, they are looked up like any
  other name.
\<close>

record world =
  scope :: "string \<rightharpoonup> jsval"
  collaborators_global :: bool
  calls :: "buffer_call list"

type_synonym 'r action = "world \<Rightarrow> 'r completion \<times> world"

definition js_return :: "'r \<Rightarrow> 'r action" where
  "js_return v w = (Normal v, w)"

definition js_throw :: "error \<Rightarrow> 'r action" where
  "js_throw e w = (Throw (ErrorObject e), w)"

text \<open>One statement after another: what the first throws ends both.\<close>

definition js_bind :: "'r action \<Rightarrow> ('r \<Rightarrow> 's action) \<Rightarrow> 's action" where
  "js_bind m f w =
     (case m w of
        (Normal v, w') \<Rightarrow> f v w'
      | (Throw e, w') \<Rightarrow> (Throw e, w'))"

definition read_global :: "string \<Rightarrow> jsval action" where
  "read_global name w =
     (case scope w name of
        None \<Rightarrow> js_throw (ReferenceError name) w
      | Some v \<Rightarrow> js_return v w)"

definition write_global :: "string \<Rightarrow> jsval \<Rightarrow> unit action" where
  "write_global name v w = (Normal (), w\<lparr>scope := (scope w)(name \<mapsto> v)\<rparr>)"

text \<open>
  A call \<^verbatim>\<open>f(args)\<close> of a name without namespace: the name is looked up first, then the
  arguments are evaluated, then the value found is called. No value of the model is a
  function, so the call ends in a TypeError when the name is bound.
\<close>

definition call_global :: "string \<Rightarrow> unit action \<Rightarrow> jsval action" where
  "call_global name args =
     js_bind (read_global name) (\<lambda>f.
     js_bind args (\<lambda>u.
     js_throw (TypeError name)))"

text \<open>
  A class of another file named without its namespace: \<open>True\<close> when the name is bound to
  the class, \<open>False\<close> when it is bound to a value of the scope, a ReferenceError when it
  is not bound. \<^verbatim>\<open>new\<close> on a value that is not a class is a TypeError.
\<close>

definition resolve_class :: "string \<Rightarrow> bool action" where
  "resolve_class name w =
     (if collaborators_global w then js_return True w
      else js_bind (read_global name) (\<lambda>v. js_return False) w)"

definition construct :: "string \<Rightarrow> bool \<Rightarrow> unit action" where
  "construct name is_class =
     (if is_class then js_return () else js_throw (TypeError name))"

text \<open>A call of the builder is logged; what the builder throws is thrown on.\<close>

definition buffer :: "builder \<Rightarrow> buffer_call \<Rightarrow> jsval action" where
  "buffer builder call w =
     (let w1 = w\<lparr>calls := calls w @ [call]\<rparr>
      in case builder call of
           Throws ex \<Rightarrow> (Throw (ErrorObject ex), w1)
         | Returns r \<Rightarrow> (Normal r, w1))"

section \<open>The buffer operation\<close>

text \<open>
  The properties of a BufferOp object. The constructor sets \<^verbatim>\<open>argGeom\<close> and
  \<^verbatim>\<open>bufParams\<close>, line 217 sets \<^verbatim>\<open>distance\<close>; \<^verbatim>\<open>resultGeometry\<close> is the
  \<^verbatim>\<open>null\<close> of the prototype, which no method assigns. No method reads any of them.
\<close>

record buffer_op =
  argGeom :: jsval
  distance :: jsval
  bufParams :: jsval
  resultGeometry :: jsval

text \<open>
  The constructor (lines 50 to 53); \<open>dflt\<close> is what \<^verbatim>\<open>new BufferParameters()\<close> builds
  (that class is not in the file).
\<close>

definition BufferOp :: "buffer_parameters \<Rightarrow> jsval \<Rightarrow> jsval \<Rightarrow> buffer_op action" where
  "BufferOp dflt g bufParams' =
     (if truthy bufParams'
      then js_return
             \<lparr>argGeom = g, distance = Null, bufParams = bufParams', resultGeometry = Null\<rparr>
      else
        js_bind (resolve_class ''BufferParameters'') (\<lambda>c.
        js_bind (construct ''BufferParameters'' c) (\<lambda>u.
        js_return
          \<lparr>argGeom = g, distance = Null, bufParams = BufferParametersObject dflt,
           resultGeometry = Null\<rparr>)))"

text \<open>Lines 252 to 256.\<close>

definition bufferOriginalPrecision :: "builder \<Rightarrow> unit action" where
  "bufferOriginalPrecision builder =
     js_bind (read_global ''bufParams'') (\<lambda>bufParams'.
     js_bind (read_global ''argGeom'') (\<lambda>argGeom'.
     js_bind (read_global ''distance'') (\<lambda>distance'.
     js_bind (buffer builder
                \<lparr>bc_bufParams = bufParams', bc_workingPrecisionModel = None,
                 bc_noder = None, bc_geom = argGeom', bc_distance = distance'\<rparr>)
       (\<lambda>r.
     write_global ''resultGeometry'' r))))"

text \<open>
  Lines 268 to 278. In \<^verbatim>\<open>new ScaledNoder(new MCIndexSnapRounder(new PrecisionModel(1.0)),
  fixedPM.getScale())\<close> each class name is looked up before its arguments are evaluated.
\<close>

definition bufferFixedPrecision :: "builder \<Rightarrow> precision_model \<Rightarrow> unit action" where
  "bufferFixedPrecision builder fixedPM =
     js_bind (resolve_class ''ScaledNoder'') (\<lambda>c1.
     js_bind (resolve_class ''MCIndexSnapRounder'') (\<lambda>c2.
     js_bind (resolve_class ''PrecisionModel'') (\<lambda>c3.
     js_bind (construct ''PrecisionModel'' c3) (\<lambda>u.
     js_bind (construct ''MCIndexSnapRounder'' c2) (\<lambda>u.
     js_bind (construct ''ScaledNoder'' c1) (\<lambda>u.
     js_bind (read_global ''bufParams'') (\<lambda>bufParams'.
     js_bind (read_global ''argGeom'') (\<lambda>argGeom'.
     js_bind (read_global ''distance'') (\<lambda>distance'.
     js_bind (buffer builder
                \<lparr>bc_bufParams = bufParams', bc_workingPrecisionModel = Some fixedPM,
                 bc_noder =
                   Some (ScaledNoder (MCIndexSnapRounder (PrecisionModel (Num 1)))
                           (getScale fixedPM)),
                 bc_geom = argGeom', bc_distance = distance'\<rparr>)
       (\<lambda>r.
     write_global ''resultGeometry'' r))))))))))"

text \<open>
  The file assigns \<^verbatim>\<open>BufferOp.prototype.bufferReducedPrecision\<close> twice: at line 234 the
  function without parameters that holds the loop over the digits, at line 258 the
  function of \<^verbatim>\<open>precisionDigits\<close>. Both are modelled, with the suffixes 0 and 1 for
  their numbers of parameters; each takes the one argument of a call, which the first
  ignores.

  Lines 258 to 266: the call of \<^verbatim>\<open>precisionScaleFactor\<close> has no namespace; its arguments
  are evaluated after the name is looked up.
\<close>

definition bufferReducedPrecision_1 :: "builder \<Rightarrow> jsval \<Rightarrow> unit action" where
  "bufferReducedPrecision_1 builder precisionDigits =
     js_bind (call_global ''precisionScaleFactor''
                (js_bind (read_global ''argGeom'') (\<lambda>argGeom'.
                 js_bind (read_global ''distance'') (\<lambda>distance'.
                 js_return ()))))
       (\<lambda>sizeBasedScaleFactor.
     js_bind (js_return (PrecisionModel (ToNumber sizeBasedScaleFactor))) (\<lambda>fixedPM.
     js_bind (call_global ''bufferFixedPrecision'' (js_return ())) (\<lambda>v.
     js_return ())))"

text \<open>
  The loop of lines 236 to 246, from the current value of \<^verbatim>\<open>precDigits\<close>. Its call
  \<^verbatim>\<open>this.bufferReducedPrecision(precDigits)\<close> reads the property when it runs, and the
  property then holds the function of line 258. The \<^verbatim>\<open>catch\<close> has no condition: it
  stores whatever was thrown. The loop need not end (\<^verbatim>\<open>Infinity - 1\<close> is
  \<^verbatim>\<open>Infinity\<close>): \<open>None\<close> is a run without end.
\<close>

partial_function (option) bufferReducedPrecision_loop ::
  "builder \<Rightarrow> jsval \<Rightarrow> world \<Rightarrow> (unit completion \<times> world) option" where
  "bufferReducedPrecision_loop builder precDigits w =
     (if js_ge (ToNumber precDigits) (Num 0) then
        (case (case bufferReducedPrecision_1 builder precDigits w of
                 (Throw ex, w1) \<Rightarrow> write_global ''saveException'' ex w1
               | (Normal u, w1) \<Rightarrow> (Normal (), w1)) of
           (Throw e, w2) \<Rightarrow> Some (Throw e, w2)
         | (Normal u, w2) \<Rightarrow>
             (case read_global ''resultGeometry'' w2 of
                (Throw e, w3) \<Rightarrow> Some (Throw e, w3)
              | (Normal r, w3) \<Rightarrow>
                  if \<not> nullish r then Some (Normal (), w3)
                  else bufferReducedPrecision_loop builder
                         (Number (js_sub (ToNumber precDigits) (Num 1))) w3))
      else
        Some (case read_global ''saveException'' w of
                (Throw e, w1) \<Rightarrow> (Throw e, w1)
              | (Normal ex, w1) \<Rightarrow> (Throw ex, w1)))"

text \<open>Lines 234 to 250: the loop starts at the global \<^verbatim>\<open>MAX_PRECISION_DIGITS\<close>.\<close>

definition bufferReducedPrecision_0 ::
  "builder \<Rightarrow> jsval \<Rightarrow> world \<Rightarrow> (unit completion \<times> world) option" where
  "bufferReducedPrecision_0 builder ignored w =
     (case read_global ''MAX_PRECISION_DIGITS'' w of
        (Throw e, w1) \<Rightarrow> Some (Throw e, w1)
      | (Normal precDigits, w1) \<Rightarrow> bufferReducedPrecision_loop builder precDigits w1)"

text \<open>
  The values assigned to the property, in the order of the file. A property holds the
  value assigned last.
\<close>

definition bufferReducedPrecision_assignments ::
  "builder \<Rightarrow> (jsval \<Rightarrow> world \<Rightarrow> (unit completion \<times> world) option) list" where
  "bufferReducedPrecision_assignments builder =
     [bufferReducedPrecision_0 builder,
      \<lambda>precisionDigits w. Some (bufferReducedPrecision_1 builder precisionDigits w)]"

definition bufferReducedPrecision ::
  "builder \<Rightarrow> jsval \<Rightarrow> world \<Rightarrow> (unit completion \<times> world) option" where
  "bufferReducedPrecision builder = last (bufferReducedPrecision_assignments builder)"

text \<open>
  \<^verbatim>\<open>argGeom.getPrecisionModel()\<close> on a value: only a geometry has the method.
\<close>

definition getPrecisionModel_of :: "jsval \<Rightarrow> precision_model action" where
  "getPrecisionModel_of v =
     (case v of
        GeometryObject g \<Rightarrow> js_return (getPrecisionModel g)
      | _ \<Rightarrow> js_throw (TypeError ''getPrecisionModel''))"

text \<open>
  \<^verbatim>\<open>PrecisionModel.FIXED\<close>: the constant of the class, \<^verbatim>\<open>undefined\<close> (\<open>None\<close>) on a
  value of the scope other than \<^verbatim>\<open>null\<close> and \<^verbatim>\<open>undefined\<close>, a TypeError on these two.
\<close>

definition PrecisionModel_FIXED :: "precision_type option action" where
  "PrecisionModel_FIXED w =
     (if collaborators_global w then js_return (Some FIXED) w
      else js_bind (read_global ''PrecisionModel'') (\<lambda>v.
             if nullish v then js_throw (TypeError ''FIXED'') else js_return None) w)"

text \<open>
  Lines 222 to 232. Nothing catches what the first attempt throws. The calls
  \<^verbatim>\<open>bufferFixedPrecision(argPM)\<close> and \<^verbatim>\<open>bufferReducedPrecision()\<close> have no \<^verbatim>\<open>this\<close>:
  they are calls of global names, not of the methods.
\<close>

definition computeGeometry :: "builder \<Rightarrow> unit action" where
  "computeGeometry builder =
     js_bind (bufferOriginalPrecision builder) (\<lambda>u.
     js_bind (read_global ''resultGeometry'') (\<lambda>r.
       if \<not> nullish r then js_return ()
       else
         js_bind (read_global ''argGeom'') (\<lambda>argGeom'.
         js_bind (getPrecisionModel_of argGeom') (\<lambda>argPM.
         js_bind PrecisionModel_FIXED (\<lambda>fixed.
           if Some (getType argPM) = fixed
           then js_bind (call_global ''bufferFixedPrecision'' (js_return ()))
                  (\<lambda>v. js_return ())
           else js_bind (call_global ''bufferReducedPrecision'' (js_return ()))
                  (\<lambda>v. js_return ()))))))"

text \<open>
  Lines 216 to 220: the distance is stored in the object, the result is read from the
  global scope.
\<close>

definition getResultGeometry ::
  "builder \<Rightarrow> jsval \<Rightarrow> buffer_op \<Rightarrow> world \<Rightarrow> jsval completion \<times> buffer_op \<times> world" where
  "getResultGeometry builder distance' self w =
     (case js_bind (computeGeometry builder) (\<lambda>u. read_global ''resultGeometry'') w of
        (c, w1) \<Rightarrow> (c, self\<lparr>distance := distance'\<rparr>, w1))"

text \<open>
  A call of a method that neither the file nor the prototype defines
  (\<^verbatim>\<open>setQuadrantSegments\<close>, \<^verbatim>\<open>setEndCapStyle\<close>): the property is \<^verbatim>\<open>undefined\<close>, and
  calling it is a TypeError.
\<close>

definition call_missing_method :: "string \<Rightarrow> unit action" where
  "call_missing_method name = js_throw (TypeError name)"

text \<open>
  \<^verbatim>\<open>new BufferOp(g)\<close> of line 177, without the namespace: a global name again.
\<close>

definition new_global_BufferOp :: "buffer_op action" where
  "new_global_BufferOp =
     js_bind (read_global ''BufferOp'') (\<lambda>f. js_throw (TypeError ''BufferOp''))"

text \<open>
  The file assigns \<^verbatim>\<open>BufferOp.bufferOp\<close> four times (lines 109, 129, 150 and 175). Each
  function is modelled with four parameters, a parameter the function does not declare
  being ignored and an argument the caller does not supply being \<^verbatim>\<open>undefined\<close>.
\<close>

definition run_getResultGeometry :: "builder \<Rightarrow> jsval \<Rightarrow> buffer_op \<Rightarrow> jsval action" where
  "run_getResultGeometry builder distance' self w =
     (case getResultGeometry builder distance' self w of (c, self1, w1) \<Rightarrow> (c, w1))"

definition bufferOp_1 ::
  "builder \<Rightarrow> buffer_parameters \<Rightarrow> jsval \<Rightarrow> jsval \<Rightarrow> jsval \<Rightarrow> jsval \<Rightarrow> jsval action" where
  "bufferOp_1 builder dflt g distance' arg3 arg4 =
     js_bind (BufferOp dflt g Undefined) (\<lambda>gBuf.
     run_getResultGeometry builder distance' gBuf)"

definition bufferOp_2 ::
  "builder \<Rightarrow> buffer_parameters \<Rightarrow> jsval \<Rightarrow> jsval \<Rightarrow> jsval \<Rightarrow> jsval \<Rightarrow> jsval action" where
  "bufferOp_2 builder dflt g distance' params arg4 =
     js_bind (BufferOp dflt g params) (\<lambda>bufOp.
     run_getResultGeometry builder distance' bufOp)"

definition bufferOp_3 ::
  "builder \<Rightarrow> buffer_parameters \<Rightarrow> jsval \<Rightarrow> jsval \<Rightarrow> jsval \<Rightarrow> jsval \<Rightarrow> jsval action" where
  "bufferOp_3 builder dflt g distance' quadrantSegments' arg4 =
     js_bind (BufferOp dflt g Undefined) (\<lambda>bufOp.
     js_bind (call_missing_method ''setQuadrantSegments'') (\<lambda>u.
     run_getResultGeometry builder distance' bufOp))"

definition bufferOp_4 ::
  "builder \<Rightarrow> buffer_parameters \<Rightarrow> jsval \<Rightarrow> jsval \<Rightarrow> jsval \<Rightarrow> jsval \<Rightarrow> jsval action" where
  "bufferOp_4 builder dflt g distance' quadrantSegments' endCapStyle' =
     js_bind new_global_BufferOp (\<lambda>bufOp.
     js_bind (call_missing_method ''setQuadrantSegments'') (\<lambda>u.
     js_bind (call_missing_method ''setEndCapStyle'') (\<lambda>u.
     run_getResultGeometry builder distance' bufOp)))"

definition bufferOp_assignments ::
  "builder \<Rightarrow> buffer_parameters \<Rightarrow>
     (jsval \<Rightarrow> jsval \<Rightarrow> jsval \<Rightarrow> jsval \<Rightarrow> jsval action) list" where
  "bufferOp_assignments builder dflt =
     [bufferOp_1 builder dflt, bufferOp_2 builder dflt, bufferOp_3 builder dflt,
      bufferOp_4 builder dflt]"

definition bufferOp ::
  "builder \<Rightarrow> buffer_parameters \<Rightarrow> jsval \<Rightarrow> jsval \<Rightarrow> jsval \<Rightarrow> jsval \<Rightarrow> jsval action" where
  "bufferOp builder dflt = last (bufferOp_assignments builder dflt)"

section \<open>Concrete inputs\<close>

text \<open>The unit square with floating precision, the same with a fixed grid, and a point.\<close>

definition unit_square :: geometry where
  "unit_square =
     \<lparr>getEnvelopeInternal = \<lparr>getHeight = Num 1, getWidth = Num 1\<rparr>,
      getPrecisionModel = \<lparr>getType = FLOATING, getScale = Num 0\<rparr>\<rparr>"

definition fixed_square :: geometry where
  "fixed_square =
     \<lparr>getEnvelopeInternal = \<lparr>getHeight = Num 1, getWidth = Num 1\<rparr>,
      getPrecisionModel = \<lparr>getType = FIXED, getScale = Num 1000\<rparr>\<rparr>"

definition single_point :: geometry where
  "single_point =
     \<lparr>getEnvelopeInternal = \<lparr>getHeight = Num 0, getWidth = Num 0\<rparr>,
      getPrecisionModel = \<lparr>getType = FLOATING, getScale = Num 0\<rparr>\<rparr>"

definition default_parameters :: buffer_parameters where
  "default_parameters = \<lparr>quadrantSegments = Num 8, endCapStyle = Num 1\<rparr>"

text \<open>
  The object \<^verbatim>\<open>new jsts.operation.buffer.BufferOp(g, params)\<close> builds for a geometry and
  the default parameters.
\<close>

definition operation_on :: "geometry \<Rightarrow> buffer_op" where
  "operation_on g =
     \<lparr>argGeom = GeometryObject g, distance = Null,
      bufParams = BufferParametersObject default_parameters, resultGeometry = Null\<rparr>"

text \<open>
  The global scope in which nothing but the file has run: none of its names is bound.
  \<open>classes\<close> says whether the four classes of the other files are global.
\<close>

definition fresh :: "bool \<Rightarrow> world" where
  "fresh classes = \<lparr>scope = Map.empty, collaborators_global = classes, calls = []\<rparr>"

text \<open>
  A global scope in which something else has bound \<^verbatim>\<open>bufParams\<close>, \<^verbatim>\<open>argGeom\<close> and
  \<^verbatim>\<open>distance\<close> to the values the object holds.
\<close>

definition bound_like :: "buffer_op \<Rightarrow> jsval \<Rightarrow> bool \<Rightarrow> world" where
  "bound_like self d classes =
     \<lparr>scope = [''bufParams'' \<mapsto> bufParams self, ''argGeom'' \<mapsto> argGeom self,
               ''distance'' \<mapsto> d],
      collaborators_global = classes, calls = []\<rparr>"

text \<open>A builder that fails for lack of robustness at every precision.\<close>

definition never_robust :: builder where
  "never_robust call =
     (if bc_workingPrecisionModel call = None
      then Throws (TopologyException ''original precision'')
      else Throws (TopologyException ''fixed precision''))"

text \<open>A builder that returns \<^verbatim>\<open>null\<close> whatever it is given.\<close>

definition returns_null :: builder where
  "returns_null call = Returns Null"

section \<open>Properties of the scale factor\<close>

text \<open>
  On finite inputs with a positive size the model of the computation stays among the
  finite numbers; at size zero the computation reaches \<^verbatim>\<open>Math.pow(10, Infinity)\<close>.
\<close>

lemma psf_finite:
  assumes "getHeight (getEnvelopeInternal g) = Num h" "getWidth (getEnvelopeInternal g) = Num w"
    and "0 < max h w + 2 * max d 0"
  shows "precisionScaleFactor g (Num d) (Num p) =
           Num (10 powr (- ((log 10 (max h w + 2 * max d 0) + 1) - p)))"
proof -
  have m: "Math_max (Num h) (Num w) = Num (max h w)" by (simp add: max_def)
  have e: "(if js_gt (Num d) (Num 0) then Num d else Num 0) = Num (max d 0)" by (simp add: max_def)
  have ln10: "ln (10::real) \<noteq> 0" by simp
  show ?thesis
    unfolding precisionScaleFactor_def Let_def assms(1,2) m e
    using assms(3) ln10 by (simp add: js_sub_def log_def)
qed

lemma js_le_zero_not_gt: "js_le d (Num 0) \<Longrightarrow> \<not> js_gt d (Num 0)"
  by (cases d) simp_all

lemma psf_point:
  assumes "getHeight (getEnvelopeInternal g) = Num 0"
    and "getWidth (getEnvelopeInternal g) = Num 0"
    and "js_le d (Num 0)"
  shows "precisionScaleFactor g d (Num p) = PosInf"
proof -
  have e: "\<not> js_gt d (Num 0)" using assms(3) by (cases d) simp_all
  have ln10: "0 < ln (10::real)" by simp
  show ?thesis
    unfolding precisionScaleFactor_def Let_def assms(1,2)
    using e ln10 by (simp add: js_sub_def)
qed

text \<open>
  Claim C6 says that the scale factor is a positive real for all finite inputs, a size
  of zero being replaced by a large finite scale. The code has no such case: for a
  point and the distance \<open>-1\<close> the size is zero, its logarithm is minus infinity, and
  the result is plus infinity.
\<close>

theorem precisionScaleFactor_zero_size_counterexample:
  "precisionScaleFactor single_point (Num (- 1)) (Num 12) = PosInf"
  by (rule psf_point) (simp_all add: single_point_def)

text \<open>
  Claim C6 as the code has it. A size of zero has no case of its own: for a geometry
  whose envelope has height 0 and width 0, a distance that is \<^verbatim>\<open><= 0\<close> and any finite
  digit count, \<^verbatim>\<open>precisionScaleFactor\<close> returns plus infinity. Only special values
  and the sign of \<^verbatim>\<open>Math.log(10)\<close> enter this computation, no rounding.
\<close>

theorem precisionScaleFactor_zero_size_infinite:
  assumes "getHeight (getEnvelopeInternal g) = Num 0"
    and "getWidth (getEnvelopeInternal g) = Num 0"
    and "js_le d (Num 0)"
  shows "precisionScaleFactor g d (Num p) = PosInf"
  using assms by (rule psf_point)

theorem precisionScaleFactor_zero_size_infinite_witness:
  "getHeight (getEnvelopeInternal single_point) = Num 0
   \<and> getWidth (getEnvelopeInternal single_point) = Num 0
   \<and> js_le (Num 0) (Num 0)
   \<and> precisionScaleFactor single_point (Num 0) (Num 3) = PosInf"
  using precisionScaleFactor_zero_size_infinite[of single_point "Num 0" 3]
  by (simp add: single_point_def)

text \<open>
  Claim C8. For a fixed geometry and distance of positive effective size, the scale
  factor grows with the digit count: \<open>p1 \<le> p2\<close> gives a scale factor for \<open>p1\<close> that is
  \<^verbatim>\<open><=\<close> the one for \<open>p2\<close>.
\<close>

theorem precisionScaleFactor_monotone:
  assumes "getHeight (getEnvelopeInternal g) = Num h"
    and "getWidth (getEnvelopeInternal g) = Num w"
    and "0 < max h w + 2 * max d 0"
    and "p1 \<le> p2"
  shows "js_le (precisionScaleFactor g (Num d) (Num (of_int p1)))
               (precisionScaleFactor g (Num d) (Num (of_int p2)))"
proof -
  have "(10::real) powr (- ((log 10 (max h w + 2 * max d 0) + 1) - of_int p1))
          \<le> 10 powr (- ((log 10 (max h w + 2 * max d 0) + 1) - of_int p2))"
    using assms(4) by (intro powr_mono) simp_all
  then show ?thesis
    by (simp add: psf_finite[OF assms(1,2,3)])
qed

theorem precisionScaleFactor_monotone_witness:
  "(0::real) < max 1 1 + 2 * max 1 0 \<and> (0::int) \<le> 12
   \<and> js_le (precisionScaleFactor unit_square (Num 1) (Num (of_int 0)))
            (precisionScaleFactor unit_square (Num 1) (Num (of_int 12)))"
  using precisionScaleFactor_monotone[of unit_square 1 1 1 0 12]
  by (simp add: unit_square_def)

text \<open>
  Claim C9. \<^verbatim>\<open>precisionScaleFactor\<close> reads the distance only through the distance
  clipped at zero, and the geometry only through the height and the width of its
  envelope: two distances that are \<^verbatim>\<open><= 0\<close> give the same scale factor, two geometries
  with the same envelope height and width give the same scale factor, and a distance
  may be replaced by its clipped value.
\<close>

theorem precisionScaleFactor_reads:
  "(js_le d1 (Num 0) \<and> js_le d2 (Num 0) \<longrightarrow>
      precisionScaleFactor g d1 p = precisionScaleFactor g d2 p)
   \<and> (getHeight (getEnvelopeInternal g1) = getHeight (getEnvelopeInternal g2)
        \<and> getWidth (getEnvelopeInternal g1) = getWidth (getEnvelopeInternal g2) \<longrightarrow>
      precisionScaleFactor g1 d p = precisionScaleFactor g2 d p)
   \<and> precisionScaleFactor g d p =
       precisionScaleFactor g (if js_gt d (Num 0) then d else Num 0) p"
  by (simp add: precisionScaleFactor_def Let_def js_le_zero_not_gt)

theorem precisionScaleFactor_reads_witness:
  "js_le (Num (- 1)) (Num 0) \<and> js_le NegInf (Num 0)
   \<and> precisionScaleFactor unit_square (Num (- 1)) (Num 12) =
       precisionScaleFactor unit_square NegInf (Num 12)
   \<and> getHeight (getEnvelopeInternal unit_square) = getHeight (getEnvelopeInternal fixed_square)
   \<and> getWidth (getEnvelopeInternal unit_square) = getWidth (getEnvelopeInternal fixed_square)
   \<and> precisionScaleFactor unit_square (Num 3) (Num 12) =
       precisionScaleFactor fixed_square (Num 3) (Num 12)"
  using precisionScaleFactor_reads[of "Num (- 1)" NegInf unit_square "Num 12" unit_square
      fixed_square "Num 3"]
  by (simp add: unit_square_def fixed_square_def)

section \<open>What a run of the operation does\<close>

lemmas js_defs =
  js_bind_def js_return_def js_throw_def read_global_def write_global_def call_global_def
  resolve_class_def construct_def buffer_def

text \<open>The first attempt, statement by statement.\<close>

lemma bufferOriginalPrecision_cases:
  "bufferOriginalPrecision builder w =
     (case scope w ''bufParams'' of
        None \<Rightarrow> (Throw (ErrorObject (ReferenceError ''bufParams'')), w)
      | Some p \<Rightarrow>
     (case scope w ''argGeom'' of
        None \<Rightarrow> (Throw (ErrorObject (ReferenceError ''argGeom'')), w)
      | Some g \<Rightarrow>
     (case scope w ''distance'' of
        None \<Rightarrow> (Throw (ErrorObject (ReferenceError ''distance'')), w)
      | Some d \<Rightarrow>
     (case builder \<lparr>bc_bufParams = p, bc_workingPrecisionModel = None, bc_noder = None,
                      bc_geom = g, bc_distance = d\<rparr> of
        Throws ex \<Rightarrow>
          (Throw (ErrorObject ex),
           w\<lparr>calls := calls w @ [\<lparr>bc_bufParams = p, bc_workingPrecisionModel = None,
                                    bc_noder = None, bc_geom = g, bc_distance = d\<rparr>]\<rparr>)
      | Returns r \<Rightarrow>
          (Normal (),
           w\<lparr>calls := calls w @ [\<lparr>bc_bufParams = p, bc_workingPrecisionModel = None,
                                    bc_noder = None, bc_geom = g, bc_distance = d\<rparr>],
             scope := (scope w)(''resultGeometry'' \<mapsto> r)\<rparr>)))))"
  by (simp add: bufferOriginalPrecision_def js_defs Let_def
      split: option.splits outcome.splits)

text \<open>
  What follows a first attempt that left no result (lines 227 to 231) throws in every
  global scope and changes nothing: the two calls go to global names.
\<close>

lemma after_first_attempt_throws:
  "\<exists>e. js_bind (read_global ''argGeom'') (\<lambda>argGeom'.
         js_bind (getPrecisionModel_of argGeom') (\<lambda>argPM.
         js_bind PrecisionModel_FIXED (\<lambda>fixed.
           if Some (getType argPM) = fixed
           then js_bind (call_global ''bufferFixedPrecision'' (js_return ()))
                  (\<lambda>v. js_return ())
           else js_bind (call_global ''bufferReducedPrecision'' (js_return ()))
                  (\<lambda>v. js_return ())))) w = (Throw e, w)"
  by (simp add: js_defs getPrecisionModel_of_def PrecisionModel_FIXED_def
      split: option.splits jsval.splits)

lemma computeGeometry_calls:
  "length (calls (snd (computeGeometry builder w))) \<le> length (calls w) + 1"
proof -
  obtain c w1 where a: "bufferOriginalPrecision builder w = (c, w1)"
    by (cases "bufferOriginalPrecision builder w")
  have l: "length (calls w1) \<le> length (calls w) + 1"
    using a by (auto simp: bufferOriginalPrecision_cases split: option.splits outcome.splits)
  show ?thesis
  proof (cases c)
    case (Throw e)
    then show ?thesis using a l by (simp add: computeGeometry_def js_bind_def)
  next
    case (Normal u)
    obtain e where "js_bind (read_global ''argGeom'') (\<lambda>argGeom'.
         js_bind (getPrecisionModel_of argGeom') (\<lambda>argPM.
         js_bind PrecisionModel_FIXED (\<lambda>fixed.
           if Some (getType argPM) = fixed
           then js_bind (call_global ''bufferFixedPrecision'' (js_return ()))
                  (\<lambda>v. js_return ())
           else js_bind (call_global ''bufferReducedPrecision'' (js_return ()))
                  (\<lambda>v. js_return ())))) w1 = (Throw e, w1)"
      using after_first_attempt_throws by blast
    then show ?thesis
      using a l Normal
      by (simp add: computeGeometry_def js_bind_def[of "bufferOriginalPrecision builder"]
          js_bind_def[of "read_global ''resultGeometry''"] read_global_def js_return_def
          js_throw_def split: option.splits)
  qed
qed

lemma computeGeometry_saveException:
  "scope (snd (computeGeometry builder w)) ''saveException'' = scope w ''saveException''"
proof -
  obtain c w1 where a: "bufferOriginalPrecision builder w = (c, w1)"
    by (cases "bufferOriginalPrecision builder w")
  have l: "scope w1 ''saveException'' = scope w ''saveException''"
    using a by (auto simp: bufferOriginalPrecision_cases split: option.splits outcome.splits)
  show ?thesis
  proof (cases c)
    case (Throw e)
    then show ?thesis using a l by (simp add: computeGeometry_def js_bind_def)
  next
    case (Normal u)
    obtain e where "js_bind (read_global ''argGeom'') (\<lambda>argGeom'.
         js_bind (getPrecisionModel_of argGeom') (\<lambda>argPM.
         js_bind PrecisionModel_FIXED (\<lambda>fixed.
           if Some (getType argPM) = fixed
           then js_bind (call_global ''bufferFixedPrecision'' (js_return ()))
                  (\<lambda>v. js_return ())
           else js_bind (call_global ''bufferReducedPrecision'' (js_return ()))
                  (\<lambda>v. js_return ())))) w1 = (Throw e, w1)"
      using after_first_attempt_throws by blast
    then show ?thesis
      using a l Normal
      by (simp add: computeGeometry_def js_bind_def[of "bufferOriginalPrecision builder"]
          js_bind_def[of "read_global ''resultGeometry''"] read_global_def js_return_def
          js_throw_def split: option.splits)
  qed
qed

lemma getResultGeometry_world:
  "snd (snd (getResultGeometry builder d self w)) = snd (computeGeometry builder w)"
  by (simp add: getResultGeometry_def js_bind_def read_global_def js_return_def js_throw_def
      split: prod.splits completion.splits option.splits)

lemma getResultGeometry_fresh:
  "getResultGeometry builder d self (fresh classes) =
     (Throw (ErrorObject (ReferenceError ''bufParams'')), self\<lparr>distance := d\<rparr>, fresh classes)"
  by (simp add: getResultGeometry_def computeGeometry_def bufferOriginalPrecision_cases
      js_bind_def fresh_def)

lemma getResultGeometry_first_attempt_throws:
  "getResultGeometry never_robust d self (bound_like self d classes) =
     (Throw (ErrorObject (TopologyException ''original precision'')),
      self\<lparr>distance := d\<rparr>,
      (bound_like self d classes)
        \<lparr>calls := [\<lparr>bc_bufParams = bufParams self, bc_workingPrecisionModel = None,
                    bc_noder = None, bc_geom = argGeom self, bc_distance = d\<rparr>]\<rparr>)"
  by (simp add: getResultGeometry_def computeGeometry_def bufferOriginalPrecision_cases
      js_bind_def bound_like_def never_robust_def)


lemma bufferOp_4_throws:
  "\<exists>e. bufferOp_4 builder dflt g d a3 a4 w = (Throw (ErrorObject e), w)"
  by (simp add: bufferOp_4_def new_global_BufferOp_def js_defs split: option.splits)

text \<open>
  Claim C1 says that for a floating precision model, after a failed first attempt, the
  digit counts 12 down to 0 are tried in decreasing order until one succeeds. On the
  code no such attempt is made. In a global scope where only the file has run,
  \<^verbatim>\<open>getResultGeometry\<close> on the unit square throws the ReferenceError of \<^verbatim>\<open>bufParams\<close>
  (line 254) before the builder is called. In no global scope does a run call the
  builder more than once. And the property \<^verbatim>\<open>bufferReducedPrecision\<close> holds the function
  of line 258, not the loop of line 234.
\<close>

theorem ladder_not_run:
  "getResultGeometry builder (Number (Num 1)) (operation_on unit_square) (fresh classes) =
     (Throw (ErrorObject (ReferenceError ''bufParams'')),
      (operation_on unit_square)\<lparr>distance := Number (Num 1)\<rparr>, fresh classes)
   \<and> length (calls (snd (snd (getResultGeometry builder d self w)))) \<le> length (calls w) + 1
   \<and> bufferReducedPrecision builder a w = Some (bufferReducedPrecision_1 builder a w)"
  using computeGeometry_calls[of builder w]
  by (simp add: getResultGeometry_fresh getResultGeometry_world
      bufferReducedPrecision_def bufferReducedPrecision_assignments_def)

text \<open>
  Claim C2 says that when the first attempt and the attempts for all digit counts fail
  for lack of robustness, \<^verbatim>\<open>getResultGeometry\<close> throws a failure whose cause is the
  failure kept from the attempt for 0 digits, and that a run ends holding a result or
  a kept failure, never neither. On the code, with a builder that is never robust and a
  global scope where only the file has run, the run ends by throwing the ReferenceError
  of \<^verbatim>\<open>bufParams\<close> and holds neither: \<^verbatim>\<open>resultGeometry\<close> and \<^verbatim>\<open>saveException\<close> are both
  unbound. And no run, in any global scope, assigns \<^verbatim>\<open>saveException\<close>.
\<close>

theorem no_failure_retained:
  "fst (getResultGeometry never_robust (Number (Num 0)) (operation_on unit_square)
          (fresh classes))
     = Throw (ErrorObject (ReferenceError ''bufParams''))
   \<and> scope (snd (snd (getResultGeometry never_robust (Number (Num 0))
          (operation_on unit_square) (fresh classes)))) ''resultGeometry'' = None
   \<and> scope (snd (snd (getResultGeometry never_robust (Number (Num 0))
          (operation_on unit_square) (fresh classes)))) ''saveException'' = None
   \<and> scope (snd (snd (getResultGeometry builder d self w))) ''saveException''
       = scope w ''saveException''"
  by (simp add: getResultGeometry_fresh getResultGeometry_world computeGeometry_saveException)
     (simp add: fresh_def)

text \<open>
  Claim C3 says that the only failures that leave the operation are its own failure
  after exhaustion and an invalid argument, and that no robustness failure of a single
  attempt, the first included, leaves it as it is. On the code nothing catches what the
  first attempt throws: where \<^verbatim>\<open>bufParams\<close>, \<^verbatim>\<open>argGeom\<close> and \<^verbatim>\<open>distance\<close> are bound, the
  TopologyException of the first attempt leaves \<^verbatim>\<open>getResultGeometry\<close> after that one
  call; where only the file has run, the ReferenceError of line 254 leaves it.
\<close>

theorem first_attempt_failure_escapes:
  "getResultGeometry never_robust (Number (Num 1)) (operation_on unit_square)
       (bound_like (operation_on unit_square) (Number (Num 1)) classes) =
     (Throw (ErrorObject (TopologyException ''original precision'')),
      (operation_on unit_square)\<lparr>distance := Number (Num 1)\<rparr>,
      (bound_like (operation_on unit_square) (Number (Num 1)) classes)
        \<lparr>calls := [\<lparr>bc_bufParams = BufferParametersObject default_parameters,
                    bc_workingPrecisionModel = None, bc_noder = None,
                    bc_geom = GeometryObject unit_square,
                    bc_distance = Number (Num 1)\<rparr>]\<rparr>)
   \<and> fst (getResultGeometry never_robust (Number (Num 1)) (operation_on unit_square)
            (fresh classes))
       = Throw (ErrorObject (ReferenceError ''bufParams''))"
  by (simp add: getResultGeometry_first_attempt_throws getResultGeometry_fresh)
     (simp add: operation_on_def)

text \<open>
  Claim C4 says that for a fixed precision model a failed first attempt is followed by
  exactly one further attempt on that model. On the code no further attempt is made for
  the unit square on a fixed grid: where only the file has run, line 254 throws before
  the builder is called; where the three names are bound and the first attempt returns
  \<^verbatim>\<open>null\<close>, lines 228 and 229 throw a ReferenceError (\<^verbatim>\<open>bufferFixedPrecision\<close> is no
  global name) and the log holds the first call only; where the first attempt throws, its
  TopologyException ends the run.
\<close>

theorem fixed_input_no_further_attempt:
  "getResultGeometry builder (Number (Num 1)) (operation_on fixed_square) (fresh classes) =
     (Throw (ErrorObject (ReferenceError ''bufParams'')),
      (operation_on fixed_square)\<lparr>distance := Number (Num 1)\<rparr>, fresh classes)
   \<and> fst (getResultGeometry returns_null (Number (Num 1)) (operation_on fixed_square)
            (bound_like (operation_on fixed_square) (Number (Num 1)) True))
       = Throw (ErrorObject (ReferenceError ''bufferFixedPrecision''))
   \<and> fst (getResultGeometry returns_null (Number (Num 1)) (operation_on fixed_square)
            (bound_like (operation_on fixed_square) (Number (Num 1)) False))
       = Throw (ErrorObject (ReferenceError ''PrecisionModel''))
   \<and> map bc_workingPrecisionModel
        (calls (snd (snd (getResultGeometry returns_null (Number (Num 1))
           (operation_on fixed_square)
           (bound_like (operation_on fixed_square) (Number (Num 1)) classes)))))
       = [None]
   \<and> getResultGeometry never_robust (Number (Num 1)) (operation_on fixed_square)
       (bound_like (operation_on fixed_square) (Number (Num 1)) classes) =
     (Throw (ErrorObject (TopologyException ''original precision'')),
      (operation_on fixed_square)\<lparr>distance := Number (Num 1)\<rparr>,
      (bound_like (operation_on fixed_square) (Number (Num 1)) classes)
        \<lparr>calls := [\<lparr>bc_bufParams = BufferParametersObject default_parameters,
                    bc_workingPrecisionModel = None, bc_noder = None,
                    bc_geom = GeometryObject fixed_square,
                    bc_distance = Number (Num 1)\<rparr>]\<rparr>)"
proof (intro conjI)
  show "getResultGeometry builder (Number (Num 1)) (operation_on fixed_square) (fresh classes) =
     (Throw (ErrorObject (ReferenceError ''bufParams'')),
      (operation_on fixed_square)\<lparr>distance := Number (Num 1)\<rparr>, fresh classes)"
    by (rule getResultGeometry_fresh)
  show "fst (getResultGeometry returns_null (Number (Num 1)) (operation_on fixed_square)
            (bound_like (operation_on fixed_square) (Number (Num 1)) True))
       = Throw (ErrorObject (ReferenceError ''bufferFixedPrecision''))"
    by (simp add: getResultGeometry_def computeGeometry_def bufferOriginalPrecision_cases
        js_defs bound_like_def returns_null_def operation_on_def fixed_square_def nullish_def
        getPrecisionModel_of_def PrecisionModel_FIXED_def)
  show "fst (getResultGeometry returns_null (Number (Num 1)) (operation_on fixed_square)
            (bound_like (operation_on fixed_square) (Number (Num 1)) False))
       = Throw (ErrorObject (ReferenceError ''PrecisionModel''))"
    by (simp add: getResultGeometry_def computeGeometry_def bufferOriginalPrecision_cases
        js_defs bound_like_def returns_null_def operation_on_def fixed_square_def nullish_def
        getPrecisionModel_of_def PrecisionModel_FIXED_def)
  show "map bc_workingPrecisionModel
        (calls (snd (snd (getResultGeometry returns_null (Number (Num 1))
           (operation_on fixed_square)
           (bound_like (operation_on fixed_square) (Number (Num 1)) classes)))))
       = [None]"
    by (cases classes)
       (simp_all add: getResultGeometry_def computeGeometry_def bufferOriginalPrecision_cases
        js_defs bound_like_def returns_null_def operation_on_def fixed_square_def nullish_def
        getPrecisionModel_of_def PrecisionModel_FIXED_def)
  show "getResultGeometry never_robust (Number (Num 1)) (operation_on fixed_square)
       (bound_like (operation_on fixed_square) (Number (Num 1)) classes) =
     (Throw (ErrorObject (TopologyException ''original precision'')),
      (operation_on fixed_square)\<lparr>distance := Number (Num 1)\<rparr>,
      (bound_like (operation_on fixed_square) (Number (Num 1)) classes)
        \<lparr>calls := [\<lparr>bc_bufParams = BufferParametersObject default_parameters,
                    bc_workingPrecisionModel = None, bc_noder = None,
                    bc_geom = GeometryObject fixed_square,
                    bc_distance = Number (Num 1)\<rparr>]\<rparr>)"
    by (simp add: getResultGeometry_first_attempt_throws) (simp add: operation_on_def)
qed


text \<open>
  Claim C10 says that every call of \<^verbatim>\<open>bufferOp\<close> runs the function of four parameters,
  which builds a BufferOp, sets the quadrant segments and the end cap style from its
  third and fourth arguments and computes the result. On the code the call does run that
  function, the last one assigned; but its first statement \<^verbatim>\<open>new BufferOp(g)\<close> names
  the class without its namespace and throws, so that nothing is built, set or
  computed, whatever the arguments and the global scope.
\<close>

theorem bufferOp_runs_last_assignment:
  "bufferOp builder dflt g d a3 a4 w = bufferOp_4 builder dflt g d a3 a4 w
   \<and> bufferOp builder dflt g d a3 a4 (fresh classes) =
       (Throw (ErrorObject (ReferenceError ''BufferOp'')), fresh classes)
   \<and> (\<exists>e. bufferOp builder dflt g d a3 a4 w = (Throw (ErrorObject e), w))"
proof -
  have l: "bufferOp builder dflt = bufferOp_4 builder dflt"
    by (simp add: bufferOp_def bufferOp_assignments_def)
  have f: "bufferOp_4 builder dflt g d a3 a4 (fresh classes) =
       (Throw (ErrorObject (ReferenceError ''BufferOp'')), fresh classes)"
    by (simp add: bufferOp_4_def new_global_BufferOp_def js_defs fresh_def)
  show ?thesis
    using bufferOp_4_throws[of builder dflt g d a3 a4 w] by (simp add: l f)
qed

end
